theory Spec2Isabelle
  imports Main
begin

section \<open>Data model of \<open>src/dev/infra.py\<close>\<close>

text \<open>
  The universal server descriptor (class \<open>Server\<close>). The attributes \<open>size\<close> and
  \<open>image\<close> are written \<open>size'\<close> and \<open>image'\<close>: both names are constants of HOL.
  \<open>ip_address\<close> defaults to Python's \<open>None\<close>.
\<close>

record Server =
  name :: string
  size' :: string
  image' :: string
  ip_address :: "string option"

text \<open>
  The exceptions the module can raise. It defines no exception class of its own: the only
  \<open>raise\<close> statement raises the built-in base class \<open>Exception\<close>, and every other
  failure is a failed lookup of Python itself (a missing dictionary key, a subscript or an
  attribute of \<open>None\<close>, a missing positional argument). The messages are written
  without their quotation marks.
\<close>

datatype error =
  Exception string
  | KeyError string
  | TypeError string
  | AttributeError string

fun exception_class :: "error \<Rightarrow> string" where
  "exception_class (Exception msg) = ''Exception''"
| "exception_class (KeyError k) = ''KeyError''"
| "exception_class (TypeError msg) = ''TypeError''"
| "exception_class (AttributeError msg) = ''AttributeError''"

text \<open>
  The configuration dictionaries. A key of a dictionary may be absent, which is the value
  \<open>None\<close> of an option here; a subnet is a dictionary from strings to strings. The key
  \<open>subnets\<close> of the network configuration is the field \<open>subnets_entry\<close> (the provider
  object has an attribute \<open>subnets\<close> of its own).
\<close>

type_synonym subnet_dict = "string \<rightharpoonup> string"

record network_config_dict =
  private_ip_range :: "string option"
  subnets_entry :: "subnet_dict list option"

record provider_config_dict =
  network_config :: "network_config_dict option"
  location :: "string option"

text \<open>
  The vendor SDK (\<open>pulumi_hcloud\<close>, \<open>pulumiverse_scaleway\<close>) is outside the repository.
  Constructing one of its resources registers the resource with the provisioning engine and
  hands back the resource object; the model keeps the constructor's arguments as the
  object, and the \<open>id\<close> of an object as a reference to its kind and logical name.
  The first argument of every resource class is the logical name of the resource, which
  the constructor of the engine's resource class refuses when it is empty: it raises
  \<open>TypeError\<close> before anything is registered. With a name that is not empty the
  constructor returns normally: what the engine makes of the other arguments later is not
  part of the module.
\<close>

datatype resource_id = OutputId string string

datatype ServerNetworkArgs = ServerNetworkArgs resource_id "string option"

datatype resource =
  hcloud_Network string string
  | hcloud_NetworkSubnet string resource_id string string string
  | hcloud_Server string string string "string list option" "ServerNetworkArgs list" string
  | scaleway_InstanceIp string
  | scaleway_InstanceServer string string string resource_id

fun id_of :: "resource \<Rightarrow> resource_id" where
  "id_of (hcloud_Network n ip_range) = OutputId ''hcloud.Network'' n"
| "id_of (hcloud_NetworkSubnet n network_id ip_range network_zone ty) =
     OutputId ''hcloud.NetworkSubnet'' n"
| "id_of (hcloud_Server n server_type img keys nets loc) =
     OutputId ''hcloud.Server'' n"
| "id_of (scaleway_InstanceIp n) = OutputId ''scaleway.InstanceIp'' n"
| "id_of (scaleway_InstanceServer n img ty ip_id) = OutputId ''scaleway.InstanceServer'' n"

text \<open>
  What a run leaves outside the Python objects: the resources registered through the SDK,
  in the order of the calls, and the methods that \<open>Provider.__init__\<close> has called on the
  object under construction (the class of the object and the method's name).
\<close>

datatype provider_class = BaseProvider | HCloudProvider | ScalewayProvider

record world =
  sdk_calls :: "resource list"
  init_calls :: "(provider_class \<times> string) list"

definition register :: "resource \<Rightarrow> world \<Rightarrow> world" where
  "register r w = w\<lparr>sdk_calls := sdk_calls w @ [r]\<rparr>"

fun resource_name :: "resource \<Rightarrow> string" where
  "resource_name (hcloud_Network n ip_range) = n"
| "resource_name (hcloud_NetworkSubnet n network_id ip_range network_zone ty) = n"
| "resource_name (hcloud_Server n server_type img keys nets loc) = n"
| "resource_name (scaleway_InstanceIp n) = n"
| "resource_name (scaleway_InstanceServer n img ty ip_id) = n"

text \<open>The call of a resource class with the arguments kept in \<open>r\<close>.\<close>

definition new_resource :: "resource \<Rightarrow> world \<Rightarrow> (error + resource) \<times> world" where
  "new_resource r w =
     (if resource_name r = []
      then (Inl (TypeError ''Missing resource name argument (for URN creation)''), w)
      else (Inr r, register r w))"

definition note_call :: "provider_class \<Rightarrow> string \<Rightarrow> world \<Rightarrow> world" where
  "note_call c m w = w\<lparr>init_calls := init_calls w @ [(c, m)]\<rparr>"

text \<open>
  A provider object. \<open>cls\<close> is its class (\<open>BaseProvider\<close> is the class \<open>Provider\<close>
  itself, which has no abstract method and can be instantiated). The list \<open>servers\<close> holds
  whatever \<open>provision_server\<close> appends: the resource object made by the SDK or the
  \<open>Server\<close> descriptor that was passed in.
\<close>

datatype server_entry = Instance resource | Descriptor Server

record provider =
  cls :: provider_class
  ssh_keys :: "string list option"
  provider_config :: "provider_config_dict option"
  sizes :: "string \<rightharpoonup> string"
  images :: "string \<rightharpoonup> string"
  network :: "resource option"
  subnets :: "resource list option"
  servers :: "server_entry list"

section \<open>The size and image tables\<close>

definition Provider_set_sizes :: "string \<rightharpoonup> string" where
  "Provider_set_sizes = map_of
     [(''small'', ''instance_type_small''),
      (''medium'', ''instance_type_medium''),
      (''large'', ''instance_type_large''),
      (''xlarge'', ''instance_type_xlarge'')]"

definition Provider_set_images :: "string \<rightharpoonup> string" where
  "Provider_set_images = map_of
     [(''ubuntu20'', ''ubuntu_20_04''),
      (''debian11'', ''debian_11''),
      (''rocky9'', ''rocky_9'')]"

definition HCloudProvider_set_images :: "string \<rightharpoonup> string" where
  "HCloudProvider_set_images = map_of
     [(''ubuntu22'', ''ubuntu-20.04''),
      (''debian11'', ''debian-11''),
      (''rocky9'', ''rocky-9''),
      (''centos7'', ''centos-7'')]"

definition HCloudProvider_set_sizes :: "string \<rightharpoonup> string" where
  "HCloudProvider_set_sizes = map_of
     [(''small'', ''cx11''),
      (''medium'', ''cx21''),
      (''large'', ''cx31''),
      (''xlarge'', ''cx41'')]"

definition ScalewayProvider_set_images :: "string \<rightharpoonup> string" where
  "ScalewayProvider_set_images = map_of
     [(''ubuntu22'', ''ubuntu_jammy''),
      (''debian11'', ''debian_bullseye''),
      (''rocky9'', ''rockylinux_9''),
      (''centos7'', ''centos_7.9'')]"

definition ScalewayProvider_set_sizes :: "string \<rightharpoonup> string" where
  "ScalewayProvider_set_sizes = map_of
     [(''small'', ''DEV1-S''),
      (''medium'', ''DEV1-M''),
      (''large'', ''DEV1-L''),
      (''xlarge'', ''DEV1-XL'')]"

text \<open>The method the call \<open>self.set_sizes()\<close> resolves to, by the class of \<open>self\<close>.\<close>

fun set_sizes :: "provider_class \<Rightarrow> (string \<rightharpoonup> string)" where
  "set_sizes BaseProvider = Provider_set_sizes"
| "set_sizes HCloudProvider = HCloudProvider_set_sizes"
| "set_sizes ScalewayProvider = ScalewayProvider_set_sizes"

fun set_images :: "provider_class \<Rightarrow> (string \<rightharpoonup> string)" where
  "set_images BaseProvider = Provider_set_images"
| "set_images HCloudProvider = HCloudProvider_set_images"
| "set_images ScalewayProvider = ScalewayProvider_set_images"

section \<open>Validation\<close>

text \<open>
  \<open>Provider.server_object_is_valid\<close>, inherited unchanged by both concrete providers:
  the image is looked up first, then the size.
\<close>

definition server_object_is_valid :: "provider \<Rightarrow> Server \<Rightarrow> bool" where
  "server_object_is_valid self server =
     (if images self (image' server) \<noteq> None \<and> sizes self (size' server) \<noteq> None
      then True else False)"

section \<open>Network and subnet provisioning\<close>

text \<open>
  The subscript \<open>self.provider_config["network_config"]\<close>: \<open>provider_config\<close> defaults
  to \<open>None\<close>, which cannot be subscripted, and a dictionary without the key raises
  \<open>KeyError\<close>.
\<close>

definition get_network_config :: "provider \<Rightarrow> error + network_config_dict" where
  "get_network_config self =
     (case provider_config self of
        None \<Rightarrow> Inl (TypeError ''NoneType object is not subscriptable'')
      | Some cfg \<Rightarrow>
          (case network_config cfg of
             None \<Rightarrow> Inl (KeyError ''network_config'')
           | Some nc \<Rightarrow> Inr nc))"

text \<open>\<open>Provider.provision_private_network\<close> and \<open>Provider.provision_private_subnets\<close>
  have the body \<open>pass\<close>: they return \<open>None\<close> and touch nothing.\<close>

definition Provider_provision_private_network ::
  "provider \<Rightarrow> world \<Rightarrow> (error + resource option) \<times> world" where
  "Provider_provision_private_network self w = (Inr None, w)"

definition Provider_provision_private_subnets ::
  "provider \<Rightarrow> world \<Rightarrow> (error + resource list option) \<times> world" where
  "Provider_provision_private_subnets self w = (Inr None, w)"

text \<open>\<open>HCloudProvider.provision_private_network\<close>: the range is handed to the SDK as it
  is found in the configuration.\<close>

definition HCloudProvider_provision_private_network ::
  "provider \<Rightarrow> world \<Rightarrow> (error + resource option) \<times> world" where
  "HCloudProvider_provision_private_network self w =
     (case get_network_config self of
        Inl e \<Rightarrow> (Inl e, w)
      | Inr nc \<Rightarrow>
          (case private_ip_range nc of
             None \<Rightarrow> (Inl (KeyError ''private_ip_range''), w)
           | Some r \<Rightarrow>
               (case new_resource (hcloud_Network ''network'' r) w of
                  (Inl e, w') \<Rightarrow> (Inl e, w')
                | (Inr net, w') \<Rightarrow> (Inr (Some net), w'))))"

text \<open>
  The loop of \<open>HCloudProvider.provision_private_subnets\<close> over the remaining subnets, with
  the list \<open>ret\<close> built so far. The arguments of \<open>hcloud.NetworkSubnet\<close> are evaluated in
  the order they are written: \<open>subnet["name"]\<close>, \<open>self.network.id\<close>,
  \<open>subnet["subnet_ip_range"]\<close>; then the class is called. A failure leaves the
  resources of the earlier rounds registered.
\<close>

fun subnets_loop ::
  "provider \<Rightarrow> subnet_dict list \<Rightarrow> resource list \<Rightarrow> world \<Rightarrow> (error + resource list) \<times> world" where
  "subnets_loop self [] ret w = (Inr ret, w)"
| "subnets_loop self (subnet # rest) ret w =
     (case subnet ''name'' of
        None \<Rightarrow> (Inl (KeyError ''name''), w)
      | Some n \<Rightarrow>
          (case network self of
             None \<Rightarrow> (Inl (AttributeError ''NoneType object has no attribute id''), w)
           | Some net \<Rightarrow>
               (case subnet ''subnet_ip_range'' of
                  None \<Rightarrow> (Inl (KeyError ''subnet_ip_range''), w)
                | Some r \<Rightarrow>
                    (case new_resource
                            (hcloud_NetworkSubnet n (id_of net) r ''eu-central'' ''cloud'') w of
                       (Inl e, w') \<Rightarrow> (Inl e, w')
                     | (Inr h, w') \<Rightarrow> subnets_loop self rest (ret @ [h]) w'))))"

definition HCloudProvider_provision_private_subnets ::
  "provider \<Rightarrow> world \<Rightarrow> (error + resource list option) \<times> world" where
  "HCloudProvider_provision_private_subnets self w =
     (case get_network_config self of
        Inl e \<Rightarrow> (Inl e, w)
      | Inr nc \<Rightarrow>
          (case subnets_entry nc of
             None \<Rightarrow> (Inl (KeyError ''subnets''), w)
           | Some subs \<Rightarrow>
               (case subnets_loop self subs [] w of
                  (Inl e, w') \<Rightarrow> (Inl e, w')
                | (Inr ret, w') \<Rightarrow> (Inr (Some ret), w'))))"

text \<open>The methods the calls \<open>self.provision_private_network()\<close> and
  \<open>self.provision_private_subnets()\<close> resolve to: only \<open>HCloudProvider\<close> overrides
  them.\<close>

definition provision_private_network ::
  "provider \<Rightarrow> world \<Rightarrow> (error + resource option) \<times> world" where
  "provision_private_network self w =
     (case cls self of
        HCloudProvider \<Rightarrow> HCloudProvider_provision_private_network self w
      | BaseProvider \<Rightarrow> Provider_provision_private_network self w
      | ScalewayProvider \<Rightarrow> Provider_provision_private_network self w)"

definition provision_private_subnets ::
  "provider \<Rightarrow> world \<Rightarrow> (error + resource list option) \<times> world" where
  "provision_private_subnets self w =
     (case cls self of
        HCloudProvider \<Rightarrow> HCloudProvider_provision_private_subnets self w
      | BaseProvider \<Rightarrow> Provider_provision_private_subnets self w
      | ScalewayProvider \<Rightarrow> Provider_provision_private_subnets self w)"

text \<open>Whether a class has a \<open>provision_private_subnets\<close> of its own (the source has no
  capability flag; a class without one inherits the empty method).\<close>

fun implements_subnets :: "provider_class \<Rightarrow> bool" where
  "implements_subnets HCloudProvider = True"
| "implements_subnets BaseProvider = False"
| "implements_subnets ScalewayProvider = False"

section \<open>Construction of a provider\<close>

text \<open>
  \<open>Provider.__init__\<close>, run for an object of class \<open>c\<close>. The attributes are assigned as
  the constructor goes; \<open>network\<close>, \<open>subnets\<close> and \<open>servers\<close> do not exist before their
  assignment, and stand as \<open>None\<close>, \<open>None\<close> and \<open>[]\<close> until then (no method called
  from the constructor reads an attribute before it is assigned). An exception leaves the
  constructor with no object, and with what the SDK has registered so far. Each call of a
  method on \<open>self\<close> is recorded in \<open>init_calls\<close>.
\<close>

definition Provider_init ::
  "provider_class \<Rightarrow> string list option \<Rightarrow> provider_config_dict option \<Rightarrow> world
     \<Rightarrow> (error + provider) \<times> world" where
  "Provider_init c keys config w =
     (let self0 = \<lparr>cls = c, ssh_keys = keys, provider_config = config,
                   sizes = set_sizes c, images = set_images c,
                   network = None, subnets = None, servers = []\<rparr>;
          w0 = note_call c ''set_images'' (note_call c ''set_sizes'' w)
      in case provision_private_network self0 (note_call c ''provision_private_network'' w0) of
           (Inl e, w1) \<Rightarrow> (Inl e, w1)
         | (Inr net, w1) \<Rightarrow>
             (case provision_private_subnets (self0\<lparr>network := net\<rparr>)
                     (note_call c ''provision_private_subnets'' w1) of
                (Inl e, w2) \<Rightarrow> (Inl e, w2)
              | (Inr subs, w2) \<Rightarrow>
                  (Inr (self0\<lparr>network := net, subnets := subs, servers := []\<rparr>), w2)))"

section \<open>Provisioning a server\<close>

text \<open>
  \<open>HCloudProvider.provision_server\<close>. The arguments of \<open>hcloud.Server\<close> are evaluated
  before the call, in the order they are written, so a failed lookup registers nothing,
  and neither does the call with an empty server name. The method returns \<open>None\<close>.
\<close>

definition HCloudProvider_provision_server ::
  "provider \<Rightarrow> Server \<Rightarrow> world \<Rightarrow> (error + unit) \<times> provider \<times> world" where
  "HCloudProvider_provision_server self server w =
     (if server_object_is_valid self server then
        (case sizes self (size' server) of
           None \<Rightarrow> (Inl (KeyError (size' server)), self, w)
         | Some server_type \<Rightarrow>
             (case images self (image' server) of
                None \<Rightarrow> (Inl (KeyError (image' server)), self, w)
              | Some img \<Rightarrow>
                  (case network self of
                     None \<Rightarrow> (Inl (AttributeError ''NoneType object has no attribute id''), self, w)
                   | Some net \<Rightarrow>
                       (case provider_config self of
                          None \<Rightarrow> (Inl (TypeError ''NoneType object is not subscriptable''), self, w)
                        | Some cfg \<Rightarrow>
                            (case location cfg of
                               None \<Rightarrow> (Inl (KeyError ''location''), self, w)
                             | Some loc \<Rightarrow>
                                 (case new_resource
                                         (hcloud_Server (name server) server_type img
                                            (ssh_keys self)
                                            [ServerNetworkArgs (id_of net) (ip_address server)]
                                            loc) w of
                                    (Inl e, w') \<Rightarrow> (Inl e, self, w')
                                  | (Inr server_instance, w') \<Rightarrow>
                                      (Inr (),
                                       self\<lparr>servers := servers self @ [Instance server_instance]\<rparr>,
                                       w')))))))
      else (Inl (Exception ''Invalid server object''), self, w))"

text \<open>
  \<open>ScalewayProvider.provision_server\<close>: the public address is created first, then the
  server; what is appended to \<open>self.servers\<close> is the argument \<open>server\<close>. The name of
  the address is never empty; an empty server name makes the second call fail, with the
  address registered.
\<close>

definition ScalewayProvider_provision_server ::
  "provider \<Rightarrow> Server \<Rightarrow> world \<Rightarrow> (error + unit) \<times> provider \<times> world" where
  "ScalewayProvider_provision_server self server w =
     (if server_object_is_valid self server then
        (case new_resource (scaleway_InstanceIp (''public_ip_'' @ name server)) w of
           (Inl e, w1) \<Rightarrow> (Inl e, self, w1)
         | (Inr ip, w1) \<Rightarrow>
             (case images self (image' server) of
                None \<Rightarrow> (Inl (KeyError (image' server)), self, w1)
              | Some img \<Rightarrow>
                  (case sizes self (size' server) of
                     None \<Rightarrow> (Inl (KeyError (size' server)), self, w1)
                   | Some ty \<Rightarrow>
                       (case new_resource
                               (scaleway_InstanceServer (name server) img ty (id_of ip)) w1 of
                          (Inl e, w2) \<Rightarrow> (Inl e, self, w2)
                        | (Inr server_instance, w2) \<Rightarrow>
                            (Inr (),
                             self\<lparr>servers := servers self @ [Descriptor server]\<rparr>,
                             w2)))))
      else (Inl (Exception ''Invalid server object''), self, w))"

text \<open>
  The call \<open>p.provision_server(server)\<close> with one argument, as \<open>Infra\<close> makes it. The
  method of the base class takes two arguments (\<open>size\<close>, \<open>image\<close>), so the call fails on
  an object of the base class before the body runs.
\<close>

definition provision_server ::
  "provider \<Rightarrow> Server \<Rightarrow> world \<Rightarrow> (error + unit) \<times> provider \<times> world" where
  "provision_server self server w =
     (case cls self of
        HCloudProvider \<Rightarrow> HCloudProvider_provision_server self server w
      | ScalewayProvider \<Rightarrow> ScalewayProvider_provision_server self server w
      | BaseProvider \<Rightarrow>
          (Inl (TypeError ''provision_server() missing 1 required positional argument: image''),
           self, w))"

section \<open>The orchestrator\<close>

text \<open>
  \<open>Infra\<close> holds the dictionary from provider names to provider objects. The provider
  found under the name is changed in place by the call; each name is taken to hold an
  object of its own.
\<close>

record Infra =
  providers :: "string \<rightharpoonup> provider"

definition Infra_provision_server ::
  "Infra \<Rightarrow> Server \<Rightarrow> string \<Rightarrow> world \<Rightarrow> (error + unit) \<times> Infra \<times> world" where
  "Infra_provision_server self server provider_name w =
     (case providers self provider_name of
        None \<Rightarrow> (Inl (KeyError provider_name), self, w)
      | Some p \<Rightarrow>
          (case provision_server p server w of
             (r, p', w') \<Rightarrow>
               (r, self\<lparr>providers := (providers self)(provider_name \<mapsto> p')\<rparr>, w')))"

text \<open>
  A run is a sequence of calls of \<open>Infra.provision_server\<close>, as at the end of
  \<open>__main__.py\<close>. A caller may catch the exception of a failed call and go on, so the
  run below goes on after a failure; a run that stops at the first failure ends in a state
  that a shorter run of this kind reaches.
\<close>

fun run_calls :: "Infra \<Rightarrow> (Server \<times> string) list \<Rightarrow> world \<Rightarrow> Infra \<times> world" where
  "run_calls self [] w = (self, w)"
| "run_calls self ((server, provider_name) # rest) w =
     (case Infra_provision_server self server provider_name w of
        (r, self', w') \<Rightarrow> run_calls self' rest w')"

section \<open>The program of \<open>src/dev/__main__.py\<close>\<close>

definition SSH_KEYS :: "string list" where
  "SSH_KEYS = [''daniel@Daniels-MBP'']"

definition HETZNER_LOCATION :: string where
  "HETZNER_LOCATION = ''fsn1''"

definition xardas :: Server where
  "xardas = \<lparr>name = ''xardas'', size' = ''small'', image' = ''rocky9'',
             ip_address = Some ''172.21.0.10''\<rparr>"

definition hetzner_config :: provider_config_dict where
  "hetzner_config =
     \<lparr>network_config = Some
        \<lparr>private_ip_range = Some ''172.21.0.0/16'',
         subnets_entry = Some
           [map_of [(''subnet_ip_range'', ''172.21.0.0/24''), (''name'', ''subnet1'')]]\<rparr>,
      location = Some HETZNER_LOCATION\<rparr>"

definition scaleway_config :: provider_config_dict where
  "scaleway_config =
     \<lparr>network_config = Some \<lparr>private_ip_range = Some ''172.22.0.0/16'', subnets_entry = None\<rparr>,
      location = None\<rparr>"

definition empty_world :: world where
  "empty_world = \<lparr>sdk_calls = [], init_calls = []\<rparr>"

text \<open>The two provider objects as their constructors leave them (lemmas
  \<open>hetzner_provider_init\<close> and \<open>scaleway_provider_init\<close> below).\<close>

definition hetzner_provider :: provider where
  "hetzner_provider =
     \<lparr>cls = HCloudProvider, ssh_keys = Some SSH_KEYS, provider_config = Some hetzner_config,
      sizes = HCloudProvider_set_sizes, images = HCloudProvider_set_images,
      network = Some (hcloud_Network ''network'' ''172.21.0.0/16''),
      subnets = Some [hcloud_NetworkSubnet ''subnet1'' (OutputId ''hcloud.Network'' ''network'')
                        ''172.21.0.0/24'' ''eu-central'' ''cloud''],
      servers = []\<rparr>"

definition scaleway_provider :: provider where
  "scaleway_provider =
     \<lparr>cls = ScalewayProvider, ssh_keys = Some SSH_KEYS, provider_config = Some scaleway_config,
      sizes = ScalewayProvider_set_sizes, images = ScalewayProvider_set_images,
      network = None, subnets = None, servers = []\<rparr>"

definition infra :: Infra where
  "infra = \<lparr>providers = map_of [(''hetzner'', hetzner_provider), (''scaleway'', scaleway_provider)]\<rparr>"

text \<open>Further inputs, used to run the definitions: a server that neither table knows, a
  server that differs from \<open>xardas\<close> in its name and address only, Hetzner configurations
  with a range that is no CIDR, without the key \<open>location\<close> and with two subnets, and a
  Scaleway configuration that lists a subnet; further below, a valid server with an empty
  name and a Hetzner configuration whose subnet has an empty name.\<close>

definition tiny_fedora :: Server where
  "tiny_fedora = \<lparr>name = ''x'', size' = ''tiny'', image' = ''fedora'', ip_address = None\<rparr>"

definition gomez :: Server where
  "gomez = \<lparr>name = ''gomez'', size' = ''small'', image' = ''rocky9'',
            ip_address = Some ''not-an-address''\<rparr>"

definition hetzner_config_bad_range :: provider_config_dict where
  "hetzner_config_bad_range =
     \<lparr>network_config = Some
        \<lparr>private_ip_range = Some ''not-a-cidr'',
         subnets_entry = Some
           [map_of [(''subnet_ip_range'', ''172.21.0.0/24''), (''name'', ''subnet1'')]]\<rparr>,
      location = Some HETZNER_LOCATION\<rparr>"

definition hetzner_config_no_location :: provider_config_dict where
  "hetzner_config_no_location =
     \<lparr>network_config = Some
        \<lparr>private_ip_range = Some ''172.21.0.0/16'',
         subnets_entry = Some
           [map_of [(''subnet_ip_range'', ''172.21.0.0/24''), (''name'', ''subnet1'')]]\<rparr>,
      location = None\<rparr>"

definition two_subnets :: "subnet_dict list" where
  "two_subnets =
     [map_of [(''subnet_ip_range'', ''172.21.1.0/24''), (''name'', ''subnet_b'')],
      map_of [(''subnet_ip_range'', ''172.21.0.0/24''), (''name'', ''subnet_a'')]]"

definition hetzner_config_two_subnets :: provider_config_dict where
  "hetzner_config_two_subnets =
     \<lparr>network_config = Some
        \<lparr>private_ip_range = Some ''172.21.0.0/16'', subnets_entry = Some two_subnets\<rparr>,
      location = Some HETZNER_LOCATION\<rparr>"

definition scaleway_config_subnets :: provider_config_dict where
  "scaleway_config_subnets =
     \<lparr>network_config = Some
        \<lparr>private_ip_range = Some ''172.22.0.0/16'',
         subnets_entry = Some
           [map_of [(''subnet_ip_range'', ''172.22.0.0/24''), (''name'', ''subnet1'')]]\<rparr>,
      location = None\<rparr>"


definition hetzner_config_unnamed_subnet :: provider_config_dict where
  "hetzner_config_unnamed_subnet =
     \<lparr>network_config = Some
        \<lparr>private_ip_range = Some ''172.21.0.0/16'',
         subnets_entry = Some
           [map_of [(''subnet_ip_range'', ''172.21.0.0/24''), (''name'', [])]]\<rparr>,
      location = Some HETZNER_LOCATION\<rparr>"

definition hetzner_provider_no_location :: provider where
  "hetzner_provider_no_location =
     hetzner_provider\<lparr>provider_config := Some hetzner_config_no_location\<rparr>"

definition hetzner_two_subnets_self :: provider where
  "hetzner_two_subnets_self =
     \<lparr>cls = HCloudProvider, ssh_keys = Some SSH_KEYS,
      provider_config = Some hetzner_config_two_subnets,
      sizes = HCloudProvider_set_sizes, images = HCloudProvider_set_images,
      network = Some (hcloud_Network ''network'' ''172.21.0.0/16''),
      subnets = None, servers = []\<rparr>"

definition hetzner_unnamed_subnet_self :: provider where
  "hetzner_unnamed_subnet_self =
     \<lparr>cls = HCloudProvider, ssh_keys = Some SSH_KEYS,
      provider_config = Some hetzner_config_unnamed_subnet,
      sizes = HCloudProvider_set_sizes, images = HCloudProvider_set_images,
      network = Some (hcloud_Network ''network'' ''172.21.0.0/16''),
      subnets = None, servers = []\<rparr>"

section \<open>Basic facts\<close>

lemma hetzner_provider_init:
  "fst (Provider_init HCloudProvider (Some SSH_KEYS) (Some hetzner_config) empty_world)
     = Inr hetzner_provider"
  by (simp add: Provider_init_def provision_private_network_def provision_private_subnets_def
      HCloudProvider_provision_private_network_def HCloudProvider_provision_private_subnets_def
      get_network_config_def hetzner_config_def hetzner_provider_def note_call_def new_resource_def register_def
      empty_world_def)

lemma scaleway_provider_init:
  "fst (Provider_init ScalewayProvider (Some SSH_KEYS) (Some scaleway_config) w)
     = Inr scaleway_provider"
  by (simp add: Provider_init_def provision_private_network_def provision_private_subnets_def
      Provider_provision_private_network_def Provider_provision_private_subnets_def
      scaleway_provider_def)

lemma new_resource_ok:
  "resource_name r \<noteq> [] \<Longrightarrow> new_resource r w = (Inr r, register r w)"
  by (simp add: new_resource_def)


lemma new_resource_init_calls:
  "init_calls (snd (new_resource r w)) = init_calls w"
  by (simp add: new_resource_def register_def)

lemma valid_iff:
  "server_object_is_valid p s \<longleftrightarrow> images p (image' s) \<noteq> None \<and> sizes p (size' s) \<noteq> None"
  by (simp add: server_object_is_valid_def)

lemma HCloud_invalid:
  "\<not> server_object_is_valid self server \<Longrightarrow>
     HCloudProvider_provision_server self server w
       = (Inl (Exception ''Invalid server object''), self, w)"
  by (simp add: HCloudProvider_provision_server_def)

lemma Scaleway_invalid:
  "\<not> server_object_is_valid self server \<Longrightarrow>
     ScalewayProvider_provision_server self server w
       = (Inl (Exception ''Invalid server object''), self, w)"
  by (simp add: ScalewayProvider_provision_server_def)







lemma xardas_valid_scaleway: "server_object_is_valid scaleway_provider xardas"
  by (simp add: valid_iff scaleway_provider_def xardas_def ScalewayProvider_set_sizes_def
      ScalewayProvider_set_images_def)

lemma tiny_fedora_invalid_hetzner: "\<not> server_object_is_valid hetzner_provider tiny_fedora"
  by (simp add: valid_iff hetzner_provider_def tiny_fedora_def HCloudProvider_set_sizes_def
      HCloudProvider_set_images_def)




lemma hetzner_provisions_xardas:
  "HCloudProvider_provision_server hetzner_provider xardas empty_world
     = (Inr (),
        hetzner_provider\<lparr>servers :=
          [Instance (hcloud_Server ''xardas'' ''cx11'' ''rocky-9'' (Some SSH_KEYS)
             [ServerNetworkArgs (OutputId ''hcloud.Network'' ''network'') (Some ''172.21.0.10'')]
             ''fsn1'')]\<rparr>,
        \<lparr>sdk_calls =
           [hcloud_Server ''xardas'' ''cx11'' ''rocky-9'' (Some SSH_KEYS)
             [ServerNetworkArgs (OutputId ''hcloud.Network'' ''network'') (Some ''172.21.0.10'')]
             ''fsn1''],
         init_calls = []\<rparr>)"
  by (simp add: HCloudProvider_provision_server_def valid_iff hetzner_provider_def xardas_def
      HCloudProvider_set_sizes_def HCloudProvider_set_images_def new_resource_def register_def empty_world_def
      hetzner_config_def HETZNER_LOCATION_def Let_def)

lemma hetzner_provider_no_location_init:
  "fst (Provider_init HCloudProvider (Some SSH_KEYS) (Some hetzner_config_no_location) empty_world)
     = Inr hetzner_provider_no_location"
  by (simp add: Provider_init_def provision_private_network_def provision_private_subnets_def
      HCloudProvider_provision_private_network_def HCloudProvider_provision_private_subnets_def
      get_network_config_def hetzner_config_no_location_def hetzner_provider_no_location_def
      hetzner_provider_def note_call_def new_resource_def register_def empty_world_def)


lemma scaleway_provisions_xardas:
  "ScalewayProvider_provision_server scaleway_provider xardas empty_world
     = (Inr (),
        scaleway_provider\<lparr>servers := [Descriptor xardas]\<rparr>,
        \<lparr>sdk_calls =
           [scaleway_InstanceIp ''public_ip_xardas'',
            scaleway_InstanceServer ''xardas'' ''rockylinux_9'' ''DEV1-S''
              (OutputId ''scaleway.InstanceIp'' ''public_ip_xardas'')],
         init_calls = []\<rparr>)"
  by (simp add: ScalewayProvider_provision_server_def valid_iff scaleway_provider_def xardas_def
      ScalewayProvider_set_sizes_def ScalewayProvider_set_images_def new_resource_def register_def empty_world_def
      Let_def)

lemma HCloud_frame:
  "\<exists>ys. fst (snd (HCloudProvider_provision_server self server w))
           = self\<lparr>servers := servers self @ ys\<rparr>"
proof (cases "fst (HCloudProvider_provision_server self server w)")
  case (Inl e)
  then have "fst (snd (HCloudProvider_provision_server self server w)) = self"
    by (auto simp add: HCloudProvider_provision_server_def new_resource_def
        split: if_splits option.splits)
  then have "fst (snd (HCloudProvider_provision_server self server w))
               = self\<lparr>servers := servers self @ []\<rparr>"
    by simp
  then show ?thesis by blast
next
  case (Inr u)
  then have "\<exists>x. fst (snd (HCloudProvider_provision_server self server w))
               = self\<lparr>servers := servers self @ [x]\<rparr>"
    by (auto simp add: HCloudProvider_provision_server_def new_resource_def
        split: if_splits option.splits)
  then show ?thesis by blast
qed

lemma HCloud_success_appends_one:
  "fst (HCloudProvider_provision_server self server w) = Inr () \<Longrightarrow>
     \<exists>x. fst (snd (HCloudProvider_provision_server self server w))
           = self\<lparr>servers := servers self @ [x]\<rparr>"
  by (auto simp add: HCloudProvider_provision_server_def new_resource_def
      split: if_splits option.splits)

lemma Scaleway_success_appends_one:
  "fst (ScalewayProvider_provision_server self server w) = Inr () \<Longrightarrow>
     \<exists>x. fst (snd (ScalewayProvider_provision_server self server w))
           = self\<lparr>servers := servers self @ [x]\<rparr>"
  by (auto simp add: ScalewayProvider_provision_server_def new_resource_def
      split: if_splits option.splits)

lemma Scaleway_frame:
  "\<exists>ys. fst (snd (ScalewayProvider_provision_server self server w))
           = self\<lparr>servers := servers self @ ys\<rparr>"
proof (cases "fst (ScalewayProvider_provision_server self server w)")
  case (Inl e)
  then have "fst (snd (ScalewayProvider_provision_server self server w)) = self"
    by (auto simp add: ScalewayProvider_provision_server_def new_resource_def
        split: if_splits option.splits)
  then have "fst (snd (ScalewayProvider_provision_server self server w))
               = self\<lparr>servers := servers self @ []\<rparr>"
    by simp
  then show ?thesis by blast
next
  case (Inr u)
  then show ?thesis
    using Scaleway_success_appends_one [of self server w] by auto
qed

lemma provision_server_frame:
  "\<exists>ys. fst (snd (provision_server self server w)) = self\<lparr>servers := servers self @ ys\<rparr>"
proof (cases "cls self")
  case BaseProvider
  then have "fst (snd (provision_server self server w)) = self\<lparr>servers := servers self @ []\<rparr>"
    by (simp add: provision_server_def)
  then show ?thesis by blast
next
  case HCloudProvider
  then show ?thesis using HCloud_frame [of self server w] by (simp add: provision_server_def)
next
  case ScalewayProvider
  then show ?thesis using Scaleway_frame [of self server w] by (simp add: provision_server_def)
qed

lemma Infra_provision_server_Some:
  "providers self m = Some q \<Longrightarrow>
     Infra_provision_server self server m w
       = (fst (provision_server q server w),
          self\<lparr>providers := (providers self)(m \<mapsto> fst (snd (provision_server q server w)))\<rparr>,
          snd (snd (provision_server q server w)))"
  by (simp add: Infra_provision_server_def split: prod.splits)

lemma Infra_step_grows:
  assumes "providers self n = Some p"
  shows "\<exists>ys. providers (fst (snd (Infra_provision_server self server m w))) n
           = Some (p\<lparr>servers := servers p @ ys\<rparr>)"
proof (cases "providers self m")
  case None
  then have "providers (fst (snd (Infra_provision_server self server m w))) n
               = Some (p\<lparr>servers := servers p @ []\<rparr>)"
    using assms by (simp add: Infra_provision_server_def)
  then show ?thesis by blast
next
  case (Some q)
  obtain ys where ys: "fst (snd (provision_server q server w)) = q\<lparr>servers := servers q @ ys\<rparr>"
    using provision_server_frame by blast
  show ?thesis
  proof (cases "n = m")
    case True
    then have "q = p" using Some assms by simp
    then have "providers (fst (snd (Infra_provision_server self server m w))) n
                 = Some (p\<lparr>servers := servers p @ ys\<rparr>)"
      using Some ys True by (simp add: Infra_provision_server_Some)
    then show ?thesis by blast
  next
    case False
    then have "providers (fst (snd (Infra_provision_server self server m w))) n
                 = Some (p\<lparr>servers := servers p @ []\<rparr>)"
      using Some assms by (simp add: Infra_provision_server_Some)
    then show ?thesis by blast
  qed
qed

lemma run_calls_grows:
  "providers self n = Some p \<Longrightarrow>
     \<exists>ys. providers (fst (run_calls self calls w)) n = Some (p\<lparr>servers := servers p @ ys\<rparr>)"
proof (induction calls arbitrary: self p w)
  case Nil
  then have "providers (fst (run_calls self [] w)) n = Some (p\<lparr>servers := servers p @ []\<rparr>)"
    by simp
  then show ?case by blast
next
  case (Cons c calls)
  obtain server m where c: "c = (server, m)" by (cases c)
  obtain r self' w' where step: "Infra_provision_server self server m w = (r, self', w')"
    by (cases "Infra_provision_server self server m w")
  from Infra_step_grows [OF Cons.prems, of server m w] step
  obtain ys where ys: "providers self' n = Some (p\<lparr>servers := servers p @ ys\<rparr>)"
    by auto
  from Cons.IH [OF ys, of w']
  obtain zs where "providers (fst (run_calls self' calls w')) n
      = Some (p\<lparr>servers := servers p @ ys, servers := servers p @ ys @ zs\<rparr>)"
    by auto
  then have "providers (fst (run_calls self (c # calls) w)) n
      = Some (p\<lparr>servers := servers p @ (ys @ zs)\<rparr>)"
    using c step by simp
  then show ?case by blast
qed

lemma subnets_loop_map:
  assumes "network self = Some net"
    and "\<forall>d\<in>set subs. d ''name'' \<noteq> None \<and> d ''name'' \<noteq> Some []
           \<and> d ''subnet_ip_range'' \<noteq> None"
  shows "subnets_loop self subs ret w
     = (Inr (ret @ map (\<lambda>d. hcloud_NetworkSubnet (the (d ''name'')) (id_of net)
                              (the (d ''subnet_ip_range'')) ''eu-central'' ''cloud'') subs),
        w\<lparr>sdk_calls := sdk_calls w @
             map (\<lambda>d. hcloud_NetworkSubnet (the (d ''name'')) (id_of net)
                              (the (d ''subnet_ip_range'')) ''eu-central'' ''cloud'') subs\<rparr>)"
  using assms
proof (induction subs arbitrary: ret w)
  case Nil
  then show ?case by simp
next
  case (Cons d subs)
  then obtain n r where nr: "d ''name'' = Some n" "n \<noteq> []" "d ''subnet_ip_range'' = Some r"
    by auto
  from Cons have rest: "\<forall>d\<in>set subs. d ''name'' \<noteq> None \<and> d ''name'' \<noteq> Some []
           \<and> d ''subnet_ip_range'' \<noteq> None"
    by simp
  show ?case
    using nr Cons.prems(1) Cons.IH [OF Cons.prems(1) rest]
    by (simp add: new_resource_ok register_def)
qed

lemma subnets_loop_init_calls:
  "init_calls (snd (subnets_loop self subs ret w)) = init_calls w"
  by (induction subs arbitrary: ret w)
    (auto simp add: new_resource_def register_def split: option.splits)

lemma HCloud_network_init_calls:
  "init_calls (snd (HCloudProvider_provision_private_network self w)) = init_calls w"
  by (auto simp add: HCloudProvider_provision_private_network_def new_resource_def register_def
      split: sum.splits option.splits)

lemma snd_wrap_result:
  "snd (case x of (Inl e, w') \<Rightarrow> (Inl e, w') | (Inr ret, w') \<Rightarrow> (Inr (f ret), w')) = snd x"
  by (auto split: prod.splits sum.splits)

lemma HCloud_subnets_init_calls:
  "init_calls (snd (HCloudProvider_provision_private_subnets self w)) = init_calls w"
  by (cases "get_network_config self")
    (simp_all add: HCloudProvider_provision_private_subnets_def snd_wrap_result
      subnets_loop_init_calls split: option.splits)

lemma network_init_calls:
  "init_calls (snd (provision_private_network self w)) = init_calls w"
  by (simp add: provision_private_network_def HCloud_network_init_calls
      Provider_provision_private_network_def split: provider_class.split)

lemma subnets_init_calls:
  "init_calls (snd (provision_private_subnets self w)) = init_calls w"
  by (simp add: provision_private_subnets_def HCloud_subnets_init_calls
      Provider_provision_private_subnets_def split: provider_class.split)

lemma HCloud_subnets_ok:
  assumes "provider_config self = Some cfg"
    and "network_config cfg = Some nc"
    and "subnets_entry nc = Some subs"
    and "network self = Some net"
    and "\<forall>d\<in>set subs. d ''name'' \<noteq> None \<and> d ''name'' \<noteq> Some []
           \<and> d ''subnet_ip_range'' \<noteq> None"
  shows "HCloudProvider_provision_private_subnets self w
     = (Inr (Some (map (\<lambda>d. hcloud_NetworkSubnet (the (d ''name'')) (id_of net)
                              (the (d ''subnet_ip_range'')) ''eu-central'' ''cloud'') subs)),
        w\<lparr>sdk_calls := sdk_calls w @
             map (\<lambda>d. hcloud_NetworkSubnet (the (d ''name'')) (id_of net)
                              (the (d ''subnet_ip_range'')) ''eu-central'' ''cloud'') subs\<rparr>)"
  using assms(1-3) subnets_loop_map [OF assms(4,5), of "[]" w]
  by (simp add: HCloudProvider_provision_private_subnets_def get_network_config_def)

lemma base_subnets_none:
  "\<not> implements_subnets (cls self) \<Longrightarrow> provision_private_subnets self w = (Inr None, w)"
  by (cases "cls self")
    (simp_all add: provision_private_subnets_def Provider_provision_private_subnets_def)

lemma HCloud_subnets_dispatch:
  "cls self = HCloudProvider \<Longrightarrow>
     provision_private_subnets self w = HCloudProvider_provision_private_subnets self w"
  by (simp add: provision_private_subnets_def)

lemma HCloud_network_ok:
  assumes "provider_config self = Some cfg"
    and "network_config cfg = Some nc"
    and "private_ip_range nc = Some r"
  shows "HCloudProvider_provision_private_network self w
     = (Inr (Some (hcloud_Network ''network'' r)), register (hcloud_Network ''network'' r) w)"
  using assms
  by (simp add: HCloudProvider_provision_private_network_def get_network_config_def
      new_resource_ok)

lemma HCloud_network_errors:
  "fst (HCloudProvider_provision_private_network self w) = Inl e \<Longrightarrow>
     e = TypeError ''NoneType object is not subscriptable''
     \<or> e = KeyError ''network_config'' \<or> e = KeyError ''private_ip_range''"
  by (auto simp add: HCloudProvider_provision_private_network_def get_network_config_def
      new_resource_ok split: option.splits)

lemma hetzner_bad_range_init:
  "fst (Provider_init HCloudProvider (Some SSH_KEYS) (Some hetzner_config_bad_range) empty_world)
     = Inr (hetzner_provider\<lparr>provider_config := Some hetzner_config_bad_range,
                             network := Some (hcloud_Network ''network'' ''not-a-cidr'')\<rparr>)"
  by (simp add: Provider_init_def provision_private_network_def provision_private_subnets_def
      HCloudProvider_provision_private_network_def HCloudProvider_provision_private_subnets_def
      get_network_config_def hetzner_config_bad_range_def hetzner_provider_def note_call_def
      new_resource_def register_def empty_world_def)

lemma base_init:
  "\<not> implements_subnets c \<Longrightarrow>
     Provider_init c keys config w
       = (Inr \<lparr>cls = c, ssh_keys = keys, provider_config = config,
               sizes = set_sizes c, images = set_images c,
               network = None, subnets = None, servers = []\<rparr>,
          w\<lparr>init_calls := init_calls w @
               [(c, ''set_sizes''), (c, ''set_images''),
                (c, ''provision_private_network''), (c, ''provision_private_subnets'')]\<rparr>)"
  by (cases c)
    (simp_all add: Provider_init_def provision_private_network_def provision_private_subnets_def
      Provider_provision_private_network_def Provider_provision_private_subnets_def
      note_call_def)

lemma init_success_calls:
  assumes "fst (Provider_init c keys config w) = Inr p"
  shows "init_calls (snd (Provider_init c keys config w))
     = init_calls w @ [(c, ''set_sizes''), (c, ''set_images''),
                (c, ''provision_private_network''), (c, ''provision_private_subnets'')]"
proof -
  let ?self0 = "\<lparr>cls = c, ssh_keys = keys, provider_config = config,
                   sizes = set_sizes c, images = set_images c,
                   network = None, subnets = None, servers = []\<rparr>"
  let ?w1 = "note_call c ''provision_private_network''
              (note_call c ''set_images'' (note_call c ''set_sizes'' w))"
  obtain r1 w1' where n: "provision_private_network ?self0 ?w1 = (r1, w1')"
    by (cases "provision_private_network ?self0 ?w1")
  have c1: "init_calls w1' = init_calls ?w1"
    using network_init_calls [of ?self0 ?w1] n by simp
  show ?thesis
  proof (cases r1)
    case (Inl e)
    with n assms show ?thesis by (simp add: Provider_init_def Let_def)
  next
    case (Inr net)
    let ?w2 = "note_call c ''provision_private_subnets'' w1'"
    obtain r2 w2' where s: "provision_private_subnets (?self0\<lparr>network := net\<rparr>) ?w2 = (r2, w2')"
      by (cases "provision_private_subnets (?self0\<lparr>network := net\<rparr>) ?w2")
    have c2: "init_calls w2' = init_calls ?w2"
      using subnets_init_calls [of "?self0\<lparr>network := net\<rparr>" ?w2] s by simp
    have "snd (Provider_init c keys config w) = w2'"
      using n Inr s by (cases r2) (simp_all add: Provider_init_def Let_def)
    with c1 c2 show ?thesis by (simp add: note_call_def)
  qed
qed

section \<open>Validation: claims C1 and C9\<close>

text \<open>
  Claim C1. For every server \<open>s\<close> and every provider \<open>p\<close>, \<open>server_object_is_valid\<close>
  returns true if and only if \<open>s.size\<close> is a key of the size table of \<open>p\<close> and \<open>s.image\<close>
  is a key of its image table.
\<close>

theorem server_object_is_valid_iff_keys:
  "server_object_is_valid p s \<longleftrightarrow> size' s \<in> dom (sizes p) \<and> image' s \<in> dom (images p)"
  by (auto simp add: valid_iff)

theorem server_object_is_valid_iff_keys_witness:
  "size' xardas \<in> dom (sizes hetzner_provider) \<and> image' xardas \<in> dom (images hetzner_provider)
   \<and> server_object_is_valid hetzner_provider xardas
   \<and> size' tiny_fedora \<notin> dom (sizes hetzner_provider)
   \<and> \<not> server_object_is_valid hetzner_provider tiny_fedora"
  using server_object_is_valid_iff_keys [of hetzner_provider xardas]
    server_object_is_valid_iff_keys [of hetzner_provider tiny_fedora]
  by (simp add: hetzner_provider_def xardas_def tiny_fedora_def HCloudProvider_set_sizes_def
      HCloudProvider_set_images_def dom_def)

text \<open>
  Claim C9. The result of the validation depends on the size and the image of the server
  only: two servers with the same size and the same image get the same answer from the
  same provider, whatever their names and addresses. The address is never looked at.
\<close>

theorem validity_depends_on_size_and_image_only:
  "size' s1 = size' s2 \<Longrightarrow> image' s1 = image' s2 \<Longrightarrow>
     server_object_is_valid p s1 = server_object_is_valid p s2"
  by (simp add: server_object_is_valid_def)

theorem validity_depends_on_size_and_image_only_witness:
  "size' xardas = size' gomez \<and> image' xardas = image' gomez
   \<and> name xardas \<noteq> name gomez \<and> ip_address xardas \<noteq> ip_address gomez
   \<and> server_object_is_valid hetzner_provider xardas
       = server_object_is_valid hetzner_provider gomez"
  using validity_depends_on_size_and_image_only [of xardas gomez hetzner_provider]
  by (simp add: xardas_def gomez_def)

section \<open>Provisioning a server: claims C2, C3, C5 and C10\<close>




text \<open>
  Claim C3. For a server that the validation rejects, \<open>provision_server\<close> makes no call
  of the vendor SDK and leaves the provider as it was, the list of servers and every other
  attribute: the provider and the outside world after the call are those before it.
\<close>

theorem invalid_server_changes_nothing:
  "\<not> server_object_is_valid self server \<Longrightarrow>
     snd (HCloudProvider_provision_server self server w) = (self, w)
     \<and> snd (ScalewayProvider_provision_server self server w) = (self, w)
     \<and> snd (provision_server self server w) = (self, w)"
  by (simp add: HCloud_invalid Scaleway_invalid provision_server_def split: provider_class.split)

theorem invalid_server_changes_nothing_witness:
  "\<not> server_object_is_valid hetzner_provider tiny_fedora
   \<and> snd (HCloudProvider_provision_server hetzner_provider tiny_fedora empty_world)
       = (hetzner_provider, empty_world)
   \<and> sdk_calls (snd (snd (provision_server hetzner_provider tiny_fedora empty_world))) = []
   \<and> servers (fst (snd (provision_server hetzner_provider tiny_fedora empty_world))) = []"
  using invalid_server_changes_nothing [of hetzner_provider tiny_fedora empty_world]
    tiny_fedora_invalid_hetzner
  by (simp add: empty_world_def hetzner_provider_def)

text \<open>
  Claim C5 at the Scaleway provider and the valid server \<open>xardas\<close> of \<open>__main__.py\<close>:
  the size and the image are translated through the tables, but the server is attached to
  no network, its address is not used, and the element appended to the list of servers is
  the descriptor that was passed in, not the resource the SDK made.
\<close>

theorem scaleway_appends_descriptor:
  "server_object_is_valid scaleway_provider xardas
   \<and> ScalewayProvider_provision_server scaleway_provider xardas empty_world
     = (Inr (),
        scaleway_provider\<lparr>servers := [Descriptor xardas]\<rparr>,
        \<lparr>sdk_calls =
           [scaleway_InstanceIp ''public_ip_xardas'',
            scaleway_InstanceServer ''xardas'' ''rockylinux_9'' ''DEV1-S''
              (OutputId ''scaleway.InstanceIp'' ''public_ip_xardas'')],
         init_calls = []\<rparr>)
   \<and> servers (fst (snd (ScalewayProvider_provision_server scaleway_provider xardas empty_world)))
     \<noteq> [Instance (scaleway_InstanceServer ''xardas'' ''rockylinux_9'' ''DEV1-S''
              (OutputId ''scaleway.InstanceIp'' ''public_ip_xardas''))]"
  by (simp add: scaleway_provisions_xardas xardas_valid_scaleway)

text \<open>
  Claim C10. A successful \<open>provision_server\<close> appends exactly one element to the list of
  servers and changes no other attribute of the provider; whatever the outcome of a call,
  and over any run of calls through \<open>Infra\<close>, the provider found under a name is the
  earlier one with a list of servers that the earlier list is a prefix of.
\<close>

theorem successful_call_appends_one_server:
  "(fst (HCloudProvider_provision_server self server w) = Inr () \<longrightarrow>
      (\<exists>x. fst (snd (HCloudProvider_provision_server self server w))
             = self\<lparr>servers := servers self @ [x]\<rparr>))
   \<and> (fst (ScalewayProvider_provision_server self server w) = Inr () \<longrightarrow>
      (\<exists>x. fst (snd (ScalewayProvider_provision_server self server w))
             = self\<lparr>servers := servers self @ [x]\<rparr>))
   \<and> (\<exists>ys. fst (snd (provision_server self server w)) = self\<lparr>servers := servers self @ ys\<rparr>)
   \<and> (providers orch n = Some p \<longrightarrow>
      (\<exists>ys. providers (fst (run_calls orch calls w)) n = Some (p\<lparr>servers := servers p @ ys\<rparr>)))"
  using HCloud_success_appends_one [of self server w]
    Scaleway_success_appends_one [of self server w]
    provision_server_frame [of self server w]
    run_calls_grows [of orch n p calls w]
  by blast

theorem successful_call_appends_one_server_witness:
  "fst (HCloudProvider_provision_server hetzner_provider xardas empty_world) = Inr ()
   \<and> fst (snd (HCloudProvider_provision_server hetzner_provider xardas empty_world))
       = hetzner_provider\<lparr>servers := servers hetzner_provider @
          [Instance (hcloud_Server ''xardas'' ''cx11'' ''rocky-9'' (Some SSH_KEYS)
             [ServerNetworkArgs (OutputId ''hcloud.Network'' ''network'') (Some ''172.21.0.10'')]
             ''fsn1'')]\<rparr>
   \<and> fst (ScalewayProvider_provision_server scaleway_provider xardas empty_world) = Inr ()
   \<and> fst (snd (ScalewayProvider_provision_server scaleway_provider xardas empty_world))
       = scaleway_provider\<lparr>servers := servers scaleway_provider @ [Descriptor xardas]\<rparr>
   \<and> providers infra ''hetzner'' = Some hetzner_provider
   \<and> map_option (\<lambda>p. length (servers p))
        (providers (fst (run_calls infra
           [(xardas, ''hetzner''), (tiny_fedora, ''hetzner''), (gomez, ''hetzner'')]
           empty_world)) ''hetzner'') = Some 2"
proof -
  have h: "providers infra ''hetzner'' = Some hetzner_provider"
    by (simp add: infra_def)
  have s1: "servers hetzner_provider = []"
    by (simp add: hetzner_provider_def)
  have s2: "servers scaleway_provider = []"
    by (simp add: scaleway_provider_def)
  have a: "fst (HCloudProvider_provision_server hetzner_provider xardas empty_world) = Inr ()
   \<and> fst (snd (HCloudProvider_provision_server hetzner_provider xardas empty_world))
       = hetzner_provider\<lparr>servers := servers hetzner_provider @
          [Instance (hcloud_Server ''xardas'' ''cx11'' ''rocky-9'' (Some SSH_KEYS)
             [ServerNetworkArgs (OutputId ''hcloud.Network'' ''network'') (Some ''172.21.0.10'')]
             ''fsn1'')]\<rparr>"
    by (simp add: hetzner_provisions_xardas s1)
  have b: "fst (ScalewayProvider_provision_server scaleway_provider xardas empty_world) = Inr ()
   \<and> fst (snd (ScalewayProvider_provision_server scaleway_provider xardas empty_world))
       = scaleway_provider\<lparr>servers := servers scaleway_provider @ [Descriptor xardas]\<rparr>"
    by (simp add: scaleway_provisions_xardas s2)
  have r: "map_option (\<lambda>p. length (servers p))
        (providers (fst (run_calls infra
           [(xardas, ''hetzner''), (tiny_fedora, ''hetzner''), (gomez, ''hetzner'')]
           empty_world)) ''hetzner'') = Some 2"
    by (simp add: infra_def Infra_provision_server_def provision_server_def
        HCloudProvider_provision_server_def valid_iff hetzner_provider_def xardas_def
        tiny_fedora_def gomez_def HCloudProvider_set_sizes_def HCloudProvider_set_images_def
        hetzner_config_def new_resource_def)
  from successful_call_appends_one_server
    [of hetzner_provider xardas empty_world infra "''hetzner''" hetzner_provider
       "[(xardas, ''hetzner''), (tiny_fedora, ''hetzner''), (gomez, ''hetzner'')]"]
    a b h r
  show ?thesis by blast
qed

section \<open>The orchestrator: claim C4\<close>

text \<open>
  Claim C4, as the code has it. For a provider name that is not a key of the dictionary of
  \<open>Infra\<close>, \<open>Infra.provision_server\<close> raises the \<open>KeyError\<close> of the failed lookup,
  with the name as its argument, and changes nothing: no provider and nothing outside.
\<close>

theorem unknown_provider_raises_KeyError:
  "providers self provider_name = None \<Longrightarrow>
     Infra_provision_server self server provider_name w = (Inl (KeyError provider_name), self, w)"
  by (simp add: Infra_provision_server_def)

theorem unknown_provider_raises_KeyError_witness:
  "providers infra ''nonexistent'' = None
   \<and> Infra_provision_server infra xardas ''nonexistent'' empty_world
       = (Inl (KeyError ''nonexistent''), infra, empty_world)"
  using unknown_provider_raises_KeyError [of infra "''nonexistent''" xardas empty_world]
  by (simp add: infra_def)

text \<open>
  The claim as the specification states it fails: the exception is a \<open>KeyError\<close>, and the
  module has no class \<open>UnknownProviderError\<close>.
\<close>

theorem unknown_provider_not_UnknownProviderError:
  "providers infra ''nonexistent'' = None
   \<and> fst (Infra_provision_server infra xardas ''nonexistent'' empty_world)
       = Inl (KeyError ''nonexistent'')
   \<and> exception_class (KeyError ''nonexistent'') \<noteq> ''UnknownProviderError''"
  by (simp add: Infra_provision_server_def infra_def)

section \<open>Networks and subnets: claim C6\<close>

text \<open>
  Claim C6, as the code has it. On a Hetzner provider, for a network configuration whose
  list of subnets has \<open>n\<close> entries, each with a \<open>name\<close> that is not empty and a
  \<open>subnet_ip_range\<close>, \<open>provision_private_subnets\<close> returns a list of exactly \<open>n\<close>
  subnet resources; the \<open>i\<close>-th is made from the \<open>i\<close>-th entry, and the SDK registers them
  in that order. On a provider of a class without a method of its own (the base class and
  the Scaleway provider) the call returns \<open>None\<close> and registers nothing, whatever the
  configuration lists.
\<close>

theorem one_subnet_handle_per_subnet_in_order:
  "(provider_config self = Some cfg \<and> network_config cfg = Some nc
      \<and> subnets_entry nc = Some subs \<and> network self = Some net
      \<and> (\<forall>d\<in>set subs. d ''name'' \<noteq> None \<and> d ''name'' \<noteq> Some []
             \<and> d ''subnet_ip_range'' \<noteq> None) \<longrightarrow>
      (\<exists>hs. HCloudProvider_provision_private_subnets self w
                 = (Inr (Some hs), w\<lparr>sdk_calls := sdk_calls w @ hs\<rparr>)
         \<and> (cls self = HCloudProvider \<longrightarrow>
              provision_private_subnets self w
                 = (Inr (Some hs), w\<lparr>sdk_calls := sdk_calls w @ hs\<rparr>))
         \<and> length hs = length subs
         \<and> (\<forall>i<length subs. \<exists>n r.
               (subs ! i) ''name'' = Some n \<and> (subs ! i) ''subnet_ip_range'' = Some r
               \<and> hs ! i = hcloud_NetworkSubnet n (id_of net) r ''eu-central'' ''cloud'')))
   \<and> (\<not> implements_subnets (cls self) \<longrightarrow>
        provision_private_subnets self w = (Inr None, w))"
proof (intro conjI impI)
  assume "\<not> implements_subnets (cls self)"
  then show "provision_private_subnets self w = (Inr None, w)"
    by (rule base_subnets_none)
next
  assume hyps: "provider_config self = Some cfg \<and> network_config cfg = Some nc
      \<and> subnets_entry nc = Some subs \<and> network self = Some net
      \<and> (\<forall>d\<in>set subs. d ''name'' \<noteq> None \<and> d ''name'' \<noteq> Some []
             \<and> d ''subnet_ip_range'' \<noteq> None)"
  let ?h = "\<lambda>d. hcloud_NetworkSubnet (the (d ''name'')) (id_of net)
                              (the (d ''subnet_ip_range'')) ''eu-central'' ''cloud''"
  have run: "HCloudProvider_provision_private_subnets self w
     = (Inr (Some (map ?h subs)), w\<lparr>sdk_calls := sdk_calls w @ map ?h subs\<rparr>)"
    using HCloud_subnets_ok [of self cfg nc subs net w] hyps by blast
  have disp: "cls self = HCloudProvider \<longrightarrow>
     provision_private_subnets self w
       = (Inr (Some (map ?h subs)), w\<lparr>sdk_calls := sdk_calls w @ map ?h subs\<rparr>)"
    using run by (simp add: HCloud_subnets_dispatch)
  have nth: "\<forall>i<length subs. \<exists>n r.
           (subs ! i) ''name'' = Some n \<and> (subs ! i) ''subnet_ip_range'' = Some r
           \<and> map ?h subs ! i = hcloud_NetworkSubnet n (id_of net) r ''eu-central'' ''cloud''"
  proof (intro allI impI)
    fix i assume i: "i < length subs"
    then have "subs ! i \<in> set subs" by simp
    with hyps obtain n r where
      "(subs ! i) ''name'' = Some n" "(subs ! i) ''subnet_ip_range'' = Some r"
      by fastforce
    then show "\<exists>n r. (subs ! i) ''name'' = Some n \<and> (subs ! i) ''subnet_ip_range'' = Some r
           \<and> map ?h subs ! i = hcloud_NetworkSubnet n (id_of net) r ''eu-central'' ''cloud''"
      using i by simp
  qed
  from run disp nth
  show "\<exists>hs. HCloudProvider_provision_private_subnets self w
                 = (Inr (Some hs), w\<lparr>sdk_calls := sdk_calls w @ hs\<rparr>)
         \<and> (cls self = HCloudProvider \<longrightarrow>
              provision_private_subnets self w
                 = (Inr (Some hs), w\<lparr>sdk_calls := sdk_calls w @ hs\<rparr>))
         \<and> length hs = length subs
         \<and> (\<forall>i<length subs. \<exists>n r.
               (subs ! i) ''name'' = Some n \<and> (subs ! i) ''subnet_ip_range'' = Some r
               \<and> hs ! i = hcloud_NetworkSubnet n (id_of net) r ''eu-central'' ''cloud'')"
    by (intro exI [of _ "map ?h subs"]) simp
qed

theorem one_subnet_handle_per_subnet_in_order_witness:
  "length two_subnets = 2
   \<and> cls hetzner_two_subnets_self = HCloudProvider
   \<and> provision_private_subnets hetzner_two_subnets_self empty_world
      = (Inr (Some
           [hcloud_NetworkSubnet ''subnet_b'' (OutputId ''hcloud.Network'' ''network'')
              ''172.21.1.0/24'' ''eu-central'' ''cloud'',
            hcloud_NetworkSubnet ''subnet_a'' (OutputId ''hcloud.Network'' ''network'')
              ''172.21.0.0/24'' ''eu-central'' ''cloud'']),
         \<lparr>sdk_calls =
           [hcloud_NetworkSubnet ''subnet_b'' (OutputId ''hcloud.Network'' ''network'')
              ''172.21.1.0/24'' ''eu-central'' ''cloud'',
            hcloud_NetworkSubnet ''subnet_a'' (OutputId ''hcloud.Network'' ''network'')
              ''172.21.0.0/24'' ''eu-central'' ''cloud''],
          init_calls = []\<rparr>)
   \<and> \<not> implements_subnets (cls scaleway_provider)
   \<and> provision_private_subnets scaleway_provider empty_world = (Inr None, empty_world)"
proof -
  have h1: "provider_config hetzner_two_subnets_self = Some hetzner_config_two_subnets"
    by (simp add: hetzner_two_subnets_self_def)
  have h2: "network_config hetzner_config_two_subnets
     = Some \<lparr>private_ip_range = Some ''172.21.0.0/16'', subnets_entry = Some two_subnets\<rparr>"
    by (simp add: hetzner_config_two_subnets_def)
  have h3: "subnets_entry \<lparr>private_ip_range = Some ''172.21.0.0/16'',
                            subnets_entry = Some two_subnets\<rparr> = Some two_subnets"
    by simp
  have h4: "network hetzner_two_subnets_self = Some (hcloud_Network ''network'' ''172.21.0.0/16'')"
    by (simp add: hetzner_two_subnets_self_def)
  have h5: "\<forall>d\<in>set two_subnets. d ''name'' \<noteq> None \<and> d ''name'' \<noteq> Some []
               \<and> d ''subnet_ip_range'' \<noteq> None"
    by (simp add: two_subnets_def)
  have h6: "cls hetzner_two_subnets_self = HCloudProvider"
    by (simp add: hetzner_two_subnets_self_def)
  have h7: "\<not> implements_subnets (cls scaleway_provider)"
    by (simp add: scaleway_provider_def)
  from one_subnet_handle_per_subnet_in_order
    [of hetzner_two_subnets_self hetzner_config_two_subnets
        "\<lparr>private_ip_range = Some ''172.21.0.0/16'', subnets_entry = Some two_subnets\<rparr>"
        two_subnets "hcloud_Network ''network'' ''172.21.0.0/16''" empty_world]
    h1 h2 h3 h4 h5 h6
  obtain hs where hs: "provision_private_subnets hetzner_two_subnets_self empty_world
                 = (Inr (Some hs), empty_world\<lparr>sdk_calls := sdk_calls empty_world @ hs\<rparr>)"
     and len: "length hs = length two_subnets"
     and nth: "\<forall>i<length two_subnets. \<exists>n r.
           (two_subnets ! i) ''name'' = Some n \<and> (two_subnets ! i) ''subnet_ip_range'' = Some r
           \<and> hs ! i = hcloud_NetworkSubnet n
                 (id_of (hcloud_Network ''network'' ''172.21.0.0/16'')) r ''eu-central'' ''cloud''"
    by blast
  have l2: "length two_subnets = 2" by (simp add: two_subnets_def)
  from nth l2 have "hs ! 0 = hcloud_NetworkSubnet ''subnet_b''
        (OutputId ''hcloud.Network'' ''network'') ''172.21.1.0/24'' ''eu-central'' ''cloud''"
    by (auto simp add: two_subnets_def)
  moreover from nth l2 have "hs ! 1 = hcloud_NetworkSubnet ''subnet_a''
        (OutputId ''hcloud.Network'' ''network'') ''172.21.0.0/24'' ''eu-central'' ''cloud''"
    by (auto simp add: two_subnets_def)
  moreover from len l2 have "length hs = 2" by simp
  ultimately have "hs =
           [hcloud_NetworkSubnet ''subnet_b'' (OutputId ''hcloud.Network'' ''network'')
              ''172.21.1.0/24'' ''eu-central'' ''cloud'',
            hcloud_NetworkSubnet ''subnet_a'' (OutputId ''hcloud.Network'' ''network'')
              ''172.21.0.0/24'' ''eu-central'' ''cloud'']"
    by (cases hs; cases "tl hs"; cases "tl (tl hs)") auto
  moreover from one_subnet_handle_per_subnet_in_order
    [of scaleway_provider hetzner_config_two_subnets
        "\<lparr>private_ip_range = Some ''172.21.0.0/16'', subnets_entry = Some two_subnets\<rparr>"
        two_subnets "hcloud_Network ''network'' ''172.21.0.0/16''" empty_world] h7
  have "provision_private_subnets scaleway_provider empty_world = (Inr None, empty_world)"
    by blast
  ultimately show ?thesis
    using hs l2 h6 h7 by (simp add: empty_world_def)
qed

text \<open>
  The claim as the specification states it fails: the Scaleway provider gets \<open>None\<close> for
  a configuration that lists one subnet, and the Hetzner provider raises \<open>TypeError\<close>,
  with no subnet resource, for a configuration whose one subnet has an empty name.
\<close>

theorem subnet_entries_without_handles:
  "map_option (\<lambda>nc. map_option length (subnets_entry nc))
      (network_config scaleway_config_subnets) = Some (Some 1)
   \<and> provision_private_subnets
        (scaleway_provider\<lparr>provider_config := Some scaleway_config_subnets\<rparr>) empty_world
      = (Inr None, empty_world)
   \<and> map_option (\<lambda>nc. map_option length (subnets_entry nc))
      (network_config hetzner_config_unnamed_subnet) = Some (Some 1)
   \<and> provision_private_subnets hetzner_unnamed_subnet_self empty_world
      = (Inl (TypeError ''Missing resource name argument (for URN creation)''), empty_world)"
proof -
  have "provision_private_subnets
        (scaleway_provider\<lparr>provider_config := Some scaleway_config_subnets\<rparr>) empty_world
      = (Inr None, empty_world)"
    by (simp add: base_subnets_none scaleway_provider_def)
  moreover have "provision_private_subnets hetzner_unnamed_subnet_self empty_world
      = (Inl (TypeError ''Missing resource name argument (for URN creation)''), empty_world)"
    by (simp add: provision_private_subnets_def HCloudProvider_provision_private_subnets_def
        get_network_config_def hetzner_unnamed_subnet_self_def hetzner_config_unnamed_subnet_def
        new_resource_def)
  ultimately show ?thesis
    by (simp add: scaleway_config_subnets_def hetzner_config_unnamed_subnet_def)
qed

section \<open>Construction of a provider: claims C7 and C8\<close>

text \<open>
  Claim C7, as the code has it. Network provisioning does not look at the form of
  \<open>private_ip_range\<close>: whatever string the configuration holds under that key,
  \<open>HCloudProvider.provision_private_network\<close> creates the network resource with that
  string as its range and raises nothing, and the method of the base class, which the
  Scaleway provider inherits, returns \<open>None\<close> without reading the configuration. The only
  failures of the Hetzner method are the failed lookups of a missing configuration or key.
\<close>

theorem network_range_is_not_validated:
  "(provider_config self = Some cfg \<and> network_config cfg = Some nc
      \<and> private_ip_range nc = Some r \<longrightarrow>
      HCloudProvider_provision_private_network self w
        = (Inr (Some (hcloud_Network ''network'' r)), register (hcloud_Network ''network'' r) w))
   \<and> Provider_provision_private_network self w = (Inr None, w)
   \<and> (fst (HCloudProvider_provision_private_network self w) = Inl e \<longrightarrow>
        e = TypeError ''NoneType object is not subscriptable''
        \<or> e = KeyError ''network_config'' \<or> e = KeyError ''private_ip_range'')"
  using HCloud_network_ok [of self cfg nc r w] HCloud_network_errors [of self w e]
  by (simp add: Provider_provision_private_network_def)

theorem network_range_is_not_validated_witness:
  "provider_config (hetzner_provider\<lparr>provider_config := Some hetzner_config_bad_range\<rparr>)
     = Some hetzner_config_bad_range
   \<and> map_option private_ip_range (network_config hetzner_config_bad_range)
     = Some (Some ''not-a-cidr'')
   \<and> HCloudProvider_provision_private_network
        (hetzner_provider\<lparr>provider_config := Some hetzner_config_bad_range\<rparr>) empty_world
     = (Inr (Some (hcloud_Network ''network'' ''not-a-cidr'')),
        \<lparr>sdk_calls = [hcloud_Network ''network'' ''not-a-cidr''], init_calls = []\<rparr>)"
proof -
  have h1: "provider_config (hetzner_provider\<lparr>provider_config := Some hetzner_config_bad_range\<rparr>)
     = Some hetzner_config_bad_range"
    by simp
  let ?subs = "[map_of [(''subnet_ip_range'', ''172.21.0.0/24''), (''name'', ''subnet1'')]]"
  let ?nc = "\<lparr>private_ip_range = Some ''not-a-cidr'', subnets_entry = Some ?subs\<rparr>"
  have h2: "network_config hetzner_config_bad_range = Some ?nc"
    by (simp add: hetzner_config_bad_range_def)
  have h3: "private_ip_range ?nc = Some ''not-a-cidr''"
    by simp
  from network_range_is_not_validated
    [of "hetzner_provider\<lparr>provider_config := Some hetzner_config_bad_range\<rparr>"
        hetzner_config_bad_range ?nc "''not-a-cidr''" empty_world "Exception []"] h1 h2 h3
  show ?thesis by (auto simp add: register_def empty_world_def)
qed

text \<open>
  The claim as the specification states it fails: with the range \<open>not-a-cidr\<close> both
  constructors return a provider, and the Hetzner one has created a network with that
  range.
\<close>

theorem invalid_range_is_accepted:
  "map_option private_ip_range (network_config hetzner_config_bad_range)
     = Some (Some ''not-a-cidr'')
   \<and> fst (Provider_init HCloudProvider (Some SSH_KEYS) (Some hetzner_config_bad_range)
            empty_world)
     = Inr (hetzner_provider\<lparr>provider_config := Some hetzner_config_bad_range,
                             network := Some (hcloud_Network ''network'' ''not-a-cidr'')\<rparr>)
   \<and> fst (Provider_init ScalewayProvider (Some SSH_KEYS) (Some hetzner_config_bad_range)
            empty_world)
     = Inr (scaleway_provider\<lparr>provider_config := Some hetzner_config_bad_range\<rparr>)"
proof -
  have "map_option private_ip_range (network_config hetzner_config_bad_range)
     = Some (Some ''not-a-cidr'')"
    by (simp add: hetzner_config_bad_range_def)
  moreover have "fst (Provider_init ScalewayProvider (Some SSH_KEYS)
            (Some hetzner_config_bad_range) empty_world)
     = Inr (scaleway_provider\<lparr>provider_config := Some hetzner_config_bad_range\<rparr>)"
    by (simp add: base_init scaleway_provider_def)
  ultimately show ?thesis
    using hetzner_bad_range_init by simp
qed

text \<open>
  Claim C8, as the code has it. The source has no capability flag: the constructor calls
  \<open>provision_private_subnets\<close> on every provider, once, after the network step. On a
  class without a method of its own (the base class and the Scaleway provider) the call
  runs the inherited empty method, so the constructor always succeeds there, registers no
  resource and leaves \<open>subnets\<close> as \<open>None\<close>, whatever the configuration lists. Every
  provider that its constructor returns has received the four calls, the last of them
  \<open>provision_private_subnets\<close>.
\<close>

theorem constructor_always_calls_provision_private_subnets:
  "(\<not> implements_subnets c \<longrightarrow>
      Provider_init c keys config w
        = (Inr \<lparr>cls = c, ssh_keys = keys, provider_config = config,
                sizes = set_sizes c, images = set_images c,
                network = None, subnets = None, servers = []\<rparr>,
           w\<lparr>init_calls := init_calls w @
                [(c, ''set_sizes''), (c, ''set_images''),
                 (c, ''provision_private_network''), (c, ''provision_private_subnets'')]\<rparr>))
   \<and> (fst (Provider_init c keys config w) = Inr p \<longrightarrow>
      init_calls (snd (Provider_init c keys config w))
        = init_calls w @
            [(c, ''set_sizes''), (c, ''set_images''),
             (c, ''provision_private_network''), (c, ''provision_private_subnets'')])"
  using base_init [of c keys config w] init_success_calls [of c keys config w p]
  by blast

theorem constructor_always_calls_provision_private_subnets_witness:
  "\<not> implements_subnets ScalewayProvider
   \<and> Provider_init ScalewayProvider (Some SSH_KEYS) (Some scaleway_config_subnets) empty_world
     = (Inr (scaleway_provider\<lparr>provider_config := Some scaleway_config_subnets\<rparr>),
        \<lparr>sdk_calls = [],
         init_calls =
           [(ScalewayProvider, ''set_sizes''), (ScalewayProvider, ''set_images''),
            (ScalewayProvider, ''provision_private_network''),
            (ScalewayProvider, ''provision_private_subnets'')]\<rparr>)
   \<and> fst (Provider_init HCloudProvider (Some SSH_KEYS) (Some hetzner_config) empty_world)
     = Inr hetzner_provider
   \<and> init_calls (snd (Provider_init HCloudProvider (Some SSH_KEYS) (Some hetzner_config)
                         empty_world))
     = [(HCloudProvider, ''set_sizes''), (HCloudProvider, ''set_images''),
        (HCloudProvider, ''provision_private_network''),
        (HCloudProvider, ''provision_private_subnets'')]"
  using constructor_always_calls_provision_private_subnets
      [of ScalewayProvider "Some SSH_KEYS" "Some scaleway_config_subnets" empty_world]
    constructor_always_calls_provision_private_subnets
      [of HCloudProvider "Some SSH_KEYS" "Some hetzner_config" empty_world hetzner_provider]
    hetzner_provider_init
  by (simp add: scaleway_provider_def empty_world_def)

text \<open>
  The claim as the specification states it fails: the Scaleway provider has no subnet
  support, its configuration lists one subnet, and its constructor calls
  \<open>provision_private_subnets\<close> on it all the same (with no effect).
\<close>

theorem subnets_called_on_provider_without_subnets:
  "\<not> implements_subnets ScalewayProvider
   \<and> map_option (\<lambda>nc. map_option length (subnets_entry nc))
        (network_config scaleway_config_subnets) = Some (Some 1)
   \<and> (ScalewayProvider, ''provision_private_subnets'')
       \<in> set (init_calls (snd (Provider_init ScalewayProvider (Some SSH_KEYS)
                                  (Some scaleway_config_subnets) empty_world)))
   \<and> sdk_calls (snd (Provider_init ScalewayProvider (Some SSH_KEYS)
                        (Some scaleway_config_subnets) empty_world)) = []"
  by (simp add: base_init scaleway_config_subnets_def empty_world_def)

end
